theory Spec2Isabelle
  imports Complex_Main
begin

section \<open>JavaScript values used by the dashboard\<close>

text \<open>
  A JavaScript number is a finite value, one of the two infinities, or NaN. A finite
  value is kept as the rational it denotes; arithmetic on finite values is exact, so the
  rounding and the overflow of IEEE 754 doubles are outside this model. The two zeros
  are one value: the code only tests a zero for truthiness and for \<open><= 0\<close>, where
  they agree.
\<close>

datatype jsnum = Fin rat | PInf | NInf | NaN

text \<open>\<open>!n\<close> is false exactly for the truthy numbers: everything but zero and NaN.\<close>

fun truthy :: "jsnum \<Rightarrow> bool" where
  "truthy (Fin r) = (r \<noteq> 0)"
| "truthy PInf = True"
| "truthy NInf = True"
| "truthy NaN = False"

text \<open>\<open>n <= 0\<close>; every comparison with NaN is false.\<close>

fun js_le0 :: "jsnum \<Rightarrow> bool" where
  "js_le0 (Fin r) = (r \<le> 0)"
| "js_le0 PInf = False"
| "js_le0 NInf = True"
| "js_le0 NaN = False"

text \<open>\<open>a + b\<close> on numbers.\<close>

fun js_add :: "jsnum \<Rightarrow> jsnum \<Rightarrow> jsnum" where
  "js_add NaN _ = NaN"
| "js_add _ NaN = NaN"
| "js_add (Fin a) (Fin b) = Fin (a + b)"
| "js_add PInf NInf = NaN"
| "js_add NInf PInf = NaN"
| "js_add PInf _ = PInf"
| "js_add NInf _ = NInf"
| "js_add (Fin a) PInf = PInf"
| "js_add (Fin a) NInf = NInf"

text \<open>
  \<open>a / b\<close> on numbers. Division by zero does not raise in JavaScript: it yields an
  infinity, or NaN for \<open>0 / 0\<close>. A zero divisor is taken as the positive zero.
\<close>

fun js_div :: "jsnum \<Rightarrow> jsnum \<Rightarrow> jsnum" where
  "js_div NaN _ = NaN"
| "js_div _ NaN = NaN"
| "js_div (Fin a) (Fin b) =
     (if b = 0 then (if a = 0 then NaN else if 0 < a then PInf else NInf)
      else Fin (a / b))"
| "js_div (Fin a) PInf = Fin 0"
| "js_div (Fin a) NInf = Fin 0"
| "js_div PInf (Fin b) = (if 0 \<le> b then PInf else NInf)"
| "js_div NInf (Fin b) = (if 0 \<le> b then NInf else PInf)"
| "js_div PInf PInf = NaN"
| "js_div PInf NInf = NaN"
| "js_div NInf PInf = NaN"
| "js_div NInf NInf = NaN"

text \<open>
  A field of a JSON response that is a number when it has a value: it can also be
  absent (\<open>undefined\<close> when read) or \<open>null\<close>, both falsy. In arithmetic
  \<open>undefined\<close> converts to NaN and \<open>null\<close> to 0.
\<close>

datatype jsfield = Undefined | Null | Num jsnum

fun truthy_field :: "jsfield \<Rightarrow> bool" where
  "truthy_field Undefined = False"
| "truthy_field Null = False"
| "truthy_field (Num n) = truthy n"

fun to_number :: "jsfield \<Rightarrow> jsnum" where
  "to_number Undefined = NaN"
| "to_number Null = Fin 0"
| "to_number (Num n) = n"

text \<open>
  The \<open>qty\<close> of an entry as it is in memory after \<open>JSON.parse\<close>: a number or
  \<open>null\<close>. As the list is persisted by \<open>JSON.stringify\<close>, which writes a finite
  number as itself and an infinity or NaN as \<open>null\<close>, a persisted \<open>qty\<close> is a
  finite number or \<open>null\<close>.
\<close>

datatype jqty = QNull | QNum rat

datatype jsval = VNull | VNum jsnum

fun parse_qty :: "jqty \<Rightarrow> jsval" where
  "parse_qty QNull = VNull"
| "parse_qty (QNum r) = VNum (Fin r)"

fun stringify_qty :: "jsval \<Rightarrow> jqty" where
  "stringify_qty VNull = QNull"
| "stringify_qty (VNum (Fin r)) = QNum r"
| "stringify_qty (VNum _) = QNull"


text \<open>\<open>v += n\<close> where \<open>v\<close> is a number or \<open>null\<close>.\<close>

fun js_plus_assign :: "jsval \<Rightarrow> jsnum \<Rightarrow> jsval" where
  "js_plus_assign VNull n = VNum (js_add (Fin 0) n)"
| "js_plus_assign (VNum a) n = VNum (js_add a n)"

text \<open>\<open>Array.prototype.findIndex\<close>: the first index whose element satisfies the test.\<close>

fun findIndex :: "('a \<Rightarrow> bool) \<Rightarrow> 'a list \<Rightarrow> nat option" where
  "findIndex p [] = None"
| "findIndex p (x # xs) =
     (if p x then Some 0 else map_option Suc (findIndex p xs))"

section \<open>Built-ins of the browser\<close>

text \<open>
  The built-in functions that the code calls, taken as parameters: \<open>parseFloat\<close>;
  \<open>new Intl.NumberFormat("en-IN", {maximumFractionDigits: 2}).format\<close>, which answers
  \<open>None\<close> when it throws; \<open>Number.prototype.toString\<close>; and \<open>Date\<close>, over a type
  \<open>'d\<close> of date objects: \<open>new Date(ms)\<close>, \<open>new Date()\<close>, a copy of a date with
  \<open>setDate(getDate() + i)\<close> applied (local calendar arithmetic), and
  \<open>toISOString().slice(0, 10)\<close>, which throws a RangeError (\<open>None\<close>) on an invalid
  date.
\<close>

record 'd browser =
  parseFloat :: "string \<Rightarrow> jsnum"
  intl_format :: "jsnum \<Rightarrow> string option"
  number_toString :: "jsnum \<Rightarrow> string"
  newDate :: "jsnum \<Rightarrow> 'd"
  date_now :: "'d"
  plusDays :: "'d \<Rightarrow> nat \<Rightarrow> 'd"
  isoDay :: "'d \<Rightarrow> string option"

text \<open>
  The outcome of \<open>fetch\<close> followed by \<open>.json()\<close>: the request fails, or a response
  arrives with its \<open>ok\<close> flag and a body that parses as JSON or does not (\<open>None\<close>).
\<close>

datatype 'a response = NetworkError | Http bool "'a option"

section \<open>The page state\<close>

text \<open>One portfolio entry \<open>{symbol, name, qty}\<close>, persisted and in memory.\<close>

record pentry =
  symbol :: string
  name :: string
  qty :: jqty

record mentry =
  m_symbol :: string
  m_name :: string
  m_qty :: jsval

definition parse_entry :: "pentry \<Rightarrow> mentry" where
  "parse_entry e = \<lparr>m_symbol = symbol e, m_name = name e, m_qty = parse_qty (qty e)\<rparr>"

definition stringify_entry :: "mentry \<Rightarrow> pentry" where
  "stringify_entry e =
     \<lparr>symbol = m_symbol e, name = m_name e, qty = stringify_qty (m_qty e)\<rparr>"

text \<open>A catalog entry, and the card that \<open>coinCardTemplate\<close> renders for it.\<close>

record coin =
  coin_id :: string
  coin_symbol :: string
  coin_name :: string
  coin_img :: string

record card =
  card_symbol :: string
  card_id :: string
  card_name :: string
  card_img :: string
  card_price :: string

text \<open>The configuration handed to \<open>new Chart\<close>, and a chart instance on a canvas.\<close>

record dataset =
  ds_label :: string
  ds_data :: "jsfield list"
  borderDash :: "nat list"

record chart_cfg =
  labels :: "string list"
  datasets :: "dataset list"

record chart_inst =
  inst_id :: nat
  canvas :: string
  cfg :: chart_cfg

text \<open>
  The browser state that the scripts read and write. \<open>ls_theme\<close> and
  \<open>ls_portfolio\<close> are the local storage items under the keys \<open>theme\<close> and
  \<open>portfolio\<close> (\<open>None\<close>: no such item). An element that the page may lack is
  \<open>None\<close> when it is absent. \<open>instances\<close> are the chart instances constructed and
  not destroyed, \<open>created\<close> counts the instances ever constructed, \<open>chart\<close> is the
  variable \<open>let chart\<close> of \<open>static/js/main.js\<close>. \<open>divisions\<close> is a ghost
  record of the operands of every \<open>/\<close> that \<open>addToPortfolio\<close> evaluates.
\<close>

record page =
  ls_theme :: "string option"
  ls_portfolio :: "pentry list option"
  data_theme :: "string option"
  themeToggle :: "bool option"
  body_dark_mode :: bool
  grid :: "card list option"
  spinner_display :: "string option"
  modalLogo :: string
  modalName :: string
  modalSymbol :: string
  modalAbout :: string
  modalCurrent :: string
  pred3m :: string
  pred6m :: string
  pred1y :: string
  modal_shown :: bool
  btnAddPortfolio :: "(string \<times> string \<times> jsfield) option"
  modeQty :: "bool option"
  inputQty :: "string option"
  inputBudget :: "string option"
  chart :: "nat option"
  instances :: "chart_inst list"
  created :: nat
  toasts :: "string list"
  divisions :: "(jsnum \<times> jsnum) list"

text \<open>\<open>toast(msg)\<close>: a notification, by a Bootstrap toast or by \<open>alert\<close>.\<close>

definition toast :: "string \<Rightarrow> page \<Rightarrow> page" where
  "toast msg st = st\<lparr>toasts := toasts st @ [msg]\<rparr>"

section \<open>Portfolio\<close>

text \<open>\<open>document.getElementById(..)?.value || "0"\<close>\<close>

fun value_or_0 :: "string option \<Rightarrow> string" where
  "value_or_0 None = ''0''"
| "value_or_0 (Some v) = (if v = [] then ''0'' else v)"

text \<open>\<open>if (q) q.value = ""\<close>\<close>

fun clear_input :: "string option \<Rightarrow> string option" where
  "clear_input None = None"
| "clear_input (Some v) = Some []"

text \<open>
  Lines 288 to 299 of \<open>addToPortfolio\<close>: read the list, merge \<open>finalQty\<close> into it
  by symbol, write it back, clear the inputs and notify.
\<close>

definition merge_entry :: "string \<Rightarrow> string \<Rightarrow> jsnum \<Rightarrow> mentry list \<Rightarrow> mentry list" where
  "merge_entry sy nm finalQty data =
     (case findIndex (\<lambda>x. m_symbol x = sy) data of
        Some idx \<Rightarrow>
          data[idx := (data ! idx)\<lparr>m_qty := js_plus_assign (m_qty (data ! idx)) finalQty\<rparr>]
      | None \<Rightarrow> data @ [\<lparr>m_symbol = sy, m_name = nm, m_qty = VNum finalQty\<rparr>])"

text \<open>\<open>localStorage.getItem("portfolio") || "[]"\<close>, as the list it encodes.\<close>

definition read_portfolio :: "page \<Rightarrow> pentry list" where
  "read_portfolio st = (case ls_portfolio st of None \<Rightarrow> [] | Some l \<Rightarrow> l)"

definition store_entry :: "string \<Rightarrow> string \<Rightarrow> jsnum \<Rightarrow> page \<Rightarrow> page" where
  "store_entry sy nm finalQty st =
     (let data = map parse_entry (read_portfolio st);
          data' = merge_entry sy nm finalQty data
      in toast (nm @ '' ('' @ sy @ '') added to portfolio.'')
           (st\<lparr>ls_portfolio := Some (map stringify_entry data'),
               inputQty := clear_input (inputQty st),
               inputBudget := clear_input (inputBudget st)\<rparr>))"

text \<open>
  Lines 274 to 286 of \<open>addToPortfolio\<close>: the message of the rejection, or the value
  of \<open>finalQty\<close> (with the division recorded when it is evaluated).
  \<open>currentPrice\<close> is the \<open>current_price\<close> field of the prediction response.
\<close>

definition finalQty :: "'d browser \<Rightarrow> jsfield \<Rightarrow> page \<Rightarrow> string + jsnum \<times> page" where
  "finalQty env currentPrice st =
     (let mode = (case modeQty st of None \<Rightarrow> False | Some c \<Rightarrow> c);
          q = parseFloat env (value_or_0 (inputQty st));
          budget = parseFloat env (value_or_0 (inputBudget st))
      in if mode then
           (if \<not> truthy q \<or> js_le0 q then Inl ''Enter a valid quantity.''
            else Inr (q, st))
         else
           (if \<not> truthy budget \<or> js_le0 budget \<or> \<not> truthy_field currentPrice
            then Inl ''Enter a valid budget (and ensure price loaded).''
            else Inr (js_div budget (to_number currentPrice),
                      st\<lparr>divisions := divisions st @ [(budget, to_number currentPrice)]\<rparr>)))"

text \<open>\<open>addToPortfolio(symbol, name, currentPrice)\<close>\<close>

definition addToPortfolio :: "'d browser \<Rightarrow> string \<Rightarrow> string \<Rightarrow> jsfield \<Rightarrow> page \<Rightarrow> page" where
  "addToPortfolio env sy nm currentPrice st =
     (case finalQty env currentPrice st of
        Inl msg \<Rightarrow> toast msg st
      | Inr (f, st') \<Rightarrow> store_entry sy nm f st')"

section \<open>Theme\<close>

text \<open>\<open>setTheme(mode)\<close> and \<open>initTheme()\<close> of \<open>static/js/main.js\<close>.\<close>

definition setTheme :: "string \<Rightarrow> page \<Rightarrow> page" where
  "setTheme mode st = st\<lparr>data_theme := Some mode, ls_theme := Some mode\<rparr>"

definition initTheme :: "page \<Rightarrow> page" where
  "initTheme st =
     (let saved = (case ls_theme st of None \<Rightarrow> ''light''
                   | Some v \<Rightarrow> if v = [] then ''light'' else v);
          st1 = setTheme saved st
      in case themeToggle st1 of None \<Rightarrow> st1
         | Some t \<Rightarrow> st1\<lparr>themeToggle := Some (saved = ''dark'')\<rparr>)"

text \<open>
  The \<open>change\<close> listener of the checkbox \<open>themeToggle\<close>; there is none when the
  page has no such element.
\<close>

definition themeToggle_change :: "page \<Rightarrow> page" where
  "themeToggle_change st =
     (case themeToggle st of None \<Rightarrow> st
      | Some checked \<Rightarrow> setTheme (if checked then ''dark'' else ''light'') st)"

text \<open>The user flips the checkbox: its state changes, then the listener runs.\<close>

definition flip_themeToggle :: "page \<Rightarrow> page" where
  "flip_themeToggle st =
     themeToggle_change (st\<lparr>themeToggle := map_option Not (themeToggle st)\<rparr>)"

text \<open>
  The \<open>click\<close> listener that \<open>frontend/js/main.js\<close> puts on the element
  \<open>theme-toggle\<close>: \<open>document.body.classList.toggle("dark-mode")\<close>.
\<close>

definition legacy_theme_click :: "page \<Rightarrow> page" where
  "legacy_theme_click st = st\<lparr>body_dark_mode := \<not> body_dark_mode st\<rparr>"

section \<open>Helpers\<close>

text \<open>The rupee sign and the em dash, as their UTF-8 bytes.\<close>

definition INR_SYMBOL :: string where
  "INR_SYMBOL = [CHR 0xE2, CHR 0x82, CHR 0xB9]"

definition dash :: string where
  "dash = [CHR 0xE2, CHR 0x80, CHR 0x94]"

text \<open>\<open>Math.round(n * 100) / 100\<close>; \<open>Math.round\<close> rounds a half up.\<close>

fun round2 :: "jsnum \<Rightarrow> jsnum" where
  "round2 (Fin r) = Fin (of_int \<lfloor>r * 100 + 1 / 2\<rfloor> / 100)"
| "round2 n = n"

definition formatINR :: "'d browser \<Rightarrow> jsnum \<Rightarrow> string" where
  "formatINR env n =
     (case intl_format env n of
        Some t \<Rightarrow> INR_SYMBOL @ t
      | None \<Rightarrow> INR_SYMBOL @ number_toString env (round2 n))"

text \<open>\<open>v ? formatINR(v) : "\<emdash>"\<close>, the text of a price that may be missing.\<close>

definition price_text :: "'d browser \<Rightarrow> jsfield \<Rightarrow> string" where
  "price_text env v = (if truthy_field v then formatINR env (to_number v) else dash)"

text \<open>
  \<open>fetchLivePricesInINR\<close>: \<open>None\<close> when it throws. The body maps a coin id to
  what \<open>prices?.[id]?.inr\<close> reads.
\<close>

fun fetchLivePricesInINR :: "(string \<Rightarrow> jsfield) response \<Rightarrow> (string \<Rightarrow> jsfield) option" where
  "fetchLivePricesInINR NetworkError = None"
| "fetchLivePricesInINR (Http ok body) = (if \<not> ok then None else body)"

section \<open>Grid\<close>

definition COINS :: "coin list" where
  "COINS =
    [\<lparr>coin_id = ''bitcoin'', coin_symbol = ''BTC'', coin_name = ''Bitcoin'', coin_img = ''/static/images/btc.png''\<rparr>,
     \<lparr>coin_id = ''ethereum'', coin_symbol = ''ETH'', coin_name = ''Ethereum'', coin_img = ''/static/images/eth.png''\<rparr>,
     \<lparr>coin_id = ''ripple'', coin_symbol = ''XRP'', coin_name = ''XRP'', coin_img = ''/static/images/xrp.png''\<rparr>,
     \<lparr>coin_id = ''tether'', coin_symbol = ''USDT'', coin_name = ''Tether'', coin_img = ''/static/images/usdt.png''\<rparr>,
     \<lparr>coin_id = ''binancecoin'', coin_symbol = ''BNB'', coin_name = ''BNB'', coin_img = ''/static/images/bnb.png''\<rparr>,
     \<lparr>coin_id = ''solana'', coin_symbol = ''SOL'', coin_name = ''Solana'', coin_img = ''/static/images/sol.png''\<rparr>,
     \<lparr>coin_id = ''usd-coin'', coin_symbol = ''USDC'', coin_name = ''USD Coin'', coin_img = ''/static/images/usdc.png''\<rparr>,
     \<lparr>coin_id = ''dogecoin'', coin_symbol = ''DOGE'', coin_name = ''Dogecoin'', coin_img = ''/static/images/doge.png''\<rparr>,
     \<lparr>coin_id = ''tron'', coin_symbol = ''TRX'', coin_name = ''TRON'', coin_img = ''/static/images/trx.png''\<rparr>,
     \<lparr>coin_id = ''cardano'', coin_symbol = ''ADA'', coin_name = ''Cardano'', coin_img = ''/static/images/ada.png''\<rparr>,
     \<lparr>coin_id = ''chainlink'', coin_symbol = ''LINK'', coin_name = ''Chainlink'', coin_img = ''/static/images/link.png''\<rparr>,
     \<lparr>coin_id = ''hyperliquid'', coin_symbol = ''HYPE'', coin_name = ''Hyperliquid'', coin_img = ''/static/images/hype.png''\<rparr>,
     \<lparr>coin_id = ''stellar'', coin_symbol = ''XLM'', coin_name = ''Stellar'', coin_img = ''/static/images/xlm.png''\<rparr>,
     \<lparr>coin_id = ''sui'', coin_symbol = ''SUI'', coin_name = ''Sui'', coin_img = ''/static/images/sui.png''\<rparr>,
     \<lparr>coin_id = ''bitcoin-cash'', coin_symbol = ''BCH'', coin_name = ''Bitcoin Cash'', coin_img = ''/static/images/bch.png''\<rparr>,
     \<lparr>coin_id = ''hedera-hashgraph'', coin_symbol = ''HBAR'', coin_name = ''Hedera'', coin_img = ''/static/images/hbar.png''\<rparr>,
     \<lparr>coin_id = ''ethena-usde'', coin_symbol = ''USDe'', coin_name = ''Ethena USDe'', coin_img = ''/static/images/usde.png''\<rparr>,
     \<lparr>coin_id = ''avalanche-2'', coin_symbol = ''AVAX'', coin_name = ''Avalanche'', coin_img = ''/static/images/avax.png''\<rparr>,
     \<lparr>coin_id = ''litecoin'', coin_symbol = ''LTC'', coin_name = ''Litecoin'', coin_img = ''/static/images/ltc.png''\<rparr>,
     \<lparr>coin_id = ''the-open-network'', coin_symbol = ''TON'', coin_name = ''Toncoin'', coin_img = ''/static/images/ton.png''\<rparr>]"

text \<open>
  \<open>coinCardTemplate(c, livePrice)\<close>. The markup of a card is fixed but for the five
  texts that the template interpolates; the card is kept as those texts.
\<close>

definition coinCardTemplate :: "'d browser \<Rightarrow> coin \<Rightarrow> jsfield \<Rightarrow> card" where
  "coinCardTemplate env c livePrice =
     \<lparr>card_symbol = coin_symbol c, card_id = coin_id c, card_name = coin_name c,
      card_img = coin_img c, card_price = price_text env livePrice\<rparr>"

text \<open>
  \<open>renderGrid()\<close> over a catalog: the content of the grid element is the list of the
  cards, in the order in which \<open>join\<close> concatenates them. The \<open>click\<close> listeners
  that it puts on the cards are not part of the state.
\<close>

definition renderGrid_on ::
  "coin list \<Rightarrow> 'd browser \<Rightarrow> (string \<Rightarrow> jsfield) response \<Rightarrow> page \<Rightarrow> page" where
  "renderGrid_on catalog env res st =
     (case grid st of
        None \<Rightarrow> st
      | Some old \<Rightarrow>
          (let st1 = (case fetchLivePricesInINR res of
                        Some prices \<Rightarrow>
                          st\<lparr>grid := Some (map (\<lambda>c. coinCardTemplate env c (prices (coin_id c))) catalog)\<rparr>
                      | None \<Rightarrow>
                          st\<lparr>grid := Some (map (\<lambda>c. coinCardTemplate env c Null) catalog)\<rparr>)
           in st1\<lparr>spinner_display := map_option (\<lambda>d. ''none'') (spinner_display st1)\<rparr>))"

definition renderGrid :: "'d browser \<Rightarrow> (string \<Rightarrow> jsfield) response \<Rightarrow> page \<Rightarrow> page" where
  "renderGrid = renderGrid_on COINS"

section \<open>Modal and chart\<close>

definition ABOUT :: "(string \<times> string) list" where
  "ABOUT =
    [(''BTC'', ''Bitcoin is the first decentralized digital currency, secured by a global network...''),
     (''ETH'', ''Ethereum is a programmable blockchain enabling smart contracts...''),
     (''XRP'', ''XRP is designed for fast, low-cost cross-border payments...''),
     (''USDT'', ''Tether (USDT) is a fiat-pegged stablecoin...''),
     (''BNB'', ''BNB is the native token of BNB Chain...''),
     (''SOL'', ''Solana is a high-performance blockchain...''),
     (''USDC'', ''USD Coin is a fully-reserved stablecoin...''),
     (''DOGE'', ''Dogecoin began as a meme coin...''),
     (''TRX'', ''TRON focuses on high throughput...''),
     (''ADA'', ''Cardano emphasizes peer-reviewed research...''),
     (''LINK'', ''Chainlink provides decentralized oracle services...''),
     (''HYPE'', ''Hyperliquid is associated with a derivatives ecosystem...''),
     (''XLM'', ''Stellar targets cross-border payments...''),
     (''SUI'', ''Sui is a high-throughput L1 based on Move...''),
     (''BCH'', ''Bitcoin Cash is a fork of Bitcoin...''),
     (''HBAR'', ''Hedera is a high-speed network using hashgraph...''),
     (''USDe'', ''Ethena USDe is a synthetic dollar...''),
     (''AVAX'', ''Avalanche is a smart contract platform...''),
     (''LTC'', ''Litecoin is a long-standing peer-to-peer cryptocurrency...''),
     (''TON'', ''Toncoin powers The Open Network...'')]"

text \<open>
  Chart.js: \<open>new Chart(ctx, config)\<close> puts a new instance on the canvas and
  \<open>destroy()\<close> takes an instance away. The constructor is modelled as always
  succeeding (from version 3 on it throws when the canvas still carries an instance).
\<close>

definition new_Chart :: "string \<Rightarrow> chart_cfg \<Rightarrow> page \<Rightarrow> page" where
  "new_Chart cv c st =
     st\<lparr>instances := instances st @ [\<lparr>inst_id = created st, canvas = cv, cfg = c\<rparr>],
        created := Suc (created st)\<rparr>"

definition destroy :: "nat \<Rightarrow> page \<Rightarrow> page" where
  "destroy i st = st\<lparr>instances := filter (\<lambda>x. inst_id x \<noteq> i) (instances st)\<rparr>"

text \<open>The prediction response \<open>preds\<close>; a series that is absent is \<open>None\<close>.\<close>

record preds =
  current_price :: jsfield
  pred_3m :: jsfield
  pred_6m :: jsfield
  pred_1y :: jsfield
  series3m :: "jsfield list option"
  series6m :: "jsfield list option"
  series1y :: "jsfield list option"

text \<open>The object \<open>{}\<close> that stands for the predictions when the response is not ok.\<close>

definition no_preds :: preds where
  "no_preds = \<lparr>current_price = Undefined, pred_3m = Undefined, pred_6m = Undefined,
     pred_1y = Undefined, series3m = None, series6m = None, series1y = None\<rparr>"

text \<open>\<open>xs.map(f)\<close> where \<open>f\<close> may throw: the first exception ends the map.\<close>

fun map_throwing :: "('a \<Rightarrow> 'b option) \<Rightarrow> 'a list \<Rightarrow> 'b list option" where
  "map_throwing f [] = Some []"
| "map_throwing f (x # xs) =
     (case f x of None \<Rightarrow> None
      | Some y \<Rightarrow> (case map_throwing f xs of None \<Rightarrow> None | Some ys \<Rightarrow> Some (y # ys)))"

text \<open>
  The loop \<open>for (let i = 1; i <= 365; i++)\<close> of \<open>openCoinModal\<close>, from the counter
  \<open>i\<close> on: each round pushes the ISO day of \<open>lastDate\<close> moved by \<open>i\<close> days.
\<close>

function future_labels :: "'d browser \<Rightarrow> 'd \<Rightarrow> nat \<Rightarrow> string list \<Rightarrow> string list option" where
  "future_labels env lastDate i labelsFull =
     (if i \<le> 365 then
        (case isoDay env (plusDays env lastDate i) of
           None \<Rightarrow> None
         | Some l \<Rightarrow> future_labels env lastDate (i + 1) (labelsFull @ [l]))
      else Some labelsFull)"
  by pat_completeness auto
termination
  by (relation "measure (\<lambda>(env, lastDate, i, labelsFull). 366 - i)") auto

text \<open>The \<open>catch\<close> block of \<open>openCoinModal\<close>.\<close>

definition modal_failed :: "page \<Rightarrow> page" where
  "modal_failed st = toast ''Failed to load coin details. Please try again.'' st"

text \<open>\<open>preds.series3m || []\<close>\<close>

fun series_or_empty :: "jsfield list option \<Rightarrow> jsfield list" where
  "series_or_empty None = []"
| "series_or_empty (Some xs) = xs"

text \<open>
  A history body is its \<open>prices\<close> field, a list of pairs of a timestamp and a
  price, \<open>None\<close> when the field is absent. \<open>history_points\<close> is the array
  \<open>points\<close>: \<open>(hist.prices || []).map((p) => ({t: new Date(p[0]), y: p[1]}))\<close>.
\<close>

definition history_points :: "'d browser \<Rightarrow> (jsnum \<times> jsnum) list option \<Rightarrow> ('d \<times> jsnum) list" where
  "history_points env hist =
     map (\<lambda>p. (newDate env (fst p), snd p)) (case hist of None \<Rightarrow> [] | Some ps \<Rightarrow> ps)"

text \<open>
  \<open>pres.ok ? await pres.json() : {}\<close> after the request: \<open>None\<close> when the request
  or the parsing fails.
\<close>

fun preds_of :: "preds response \<Rightarrow> preds option" where
  "preds_of NetworkError = None"
| "preds_of (Http pok body) = (if pok then body else Some no_preds)"

text \<open>
  The parts of \<open>openCoinModal\<close>, in the order of the source. First the header
  (lines 144 to 148).
\<close>

definition modal_header :: "string \<Rightarrow> string \<Rightarrow> page \<Rightarrow> page" where
  "modal_header sy nm st =
     st\<lparr>modalLogo := (case find (\<lambda>c. coin_symbol c = sy) COINS of
                         None \<Rightarrow> [] | Some c \<Rightarrow> coin_img c),
        modalName := nm,
        modalSymbol := sy,
        modalAbout := (case map_of ABOUT sy of None \<Rightarrow> dash
                       | Some a \<Rightarrow> if a = [] then dash else a)\<rparr>"

text \<open>The four price fields (lines 166 to 177).\<close>

definition modal_prices :: "'d browser \<Rightarrow> preds \<Rightarrow> page \<Rightarrow> page" where
  "modal_prices env pr st =
     st\<lparr>modalCurrent := price_text env (current_price pr),
        pred3m := price_text env (pred_3m pr),
        pred6m := price_text env (pred_6m pr),
        pred1y := price_text env (pred_1y pr)\<rparr>"

text \<open>The configuration of the chart (lines 189 to 230), with \<open>histPadded\<close>.\<close>

definition price_chart_config :: "string list \<Rightarrow> jsnum list \<Rightarrow> preds \<Rightarrow> chart_cfg" where
  "price_chart_config labelsFull pricesHist pr =
     (let histPadded = map Num pricesHist @
            replicate (length labelsFull - length pricesHist) Null
      in \<lparr>labels = labelsFull,
          datasets =
            [\<lparr>ds_label = ''Historical (INR)'', ds_data = histPadded, borderDash = []\<rparr>,
             \<lparr>ds_label = ''Pred 3M'', ds_data = series_or_empty (series3m pr),
              borderDash = [6, 4]\<rparr>,
             \<lparr>ds_label = ''Pred 6M'', ds_data = series_or_empty (series6m pr),
              borderDash = [2, 6]\<rparr>,
             \<lparr>ds_label = ''Pred 1Y'', ds_data = series_or_empty (series1y pr),
              borderDash = [1, 8]\<rparr>]\<rparr>)"

text \<open>\<open>if (chart) chart.destroy(); chart = new Chart(ctx, config)\<close> (lines 194 to 196).\<close>

definition replace_chart :: "chart_cfg \<Rightarrow> page \<Rightarrow> page" where
  "replace_chart c st =
     (let st3 = (case chart st of None \<Rightarrow> st | Some i \<Rightarrow> destroy i st);
          st4 = new_Chart ''priceChart'' c st3
      in st4\<lparr>chart := Some (created st3)\<rparr>)"

text \<open>
  \<open>openCoinModal({symbol, id, name})\<close> of \<open>static/js/main.js\<close>, given what the two
  requests answer. The elements of the modal are taken to exist. The handlers of the two
  mode buttons, which show and hide the input groups, are not part of the state.
\<close>

definition openCoinModal ::
  "'d browser \<Rightarrow> string \<Rightarrow> string \<Rightarrow> string \<Rightarrow> (jsnum \<times> jsnum) list option response \<Rightarrow>
   preds response \<Rightarrow> page \<Rightarrow> page" where
  "openCoinModal env sy ident nm hres pres st =
     (let st1 = modal_header sy nm st
      in case hres of
           NetworkError \<Rightarrow> modal_failed st1
         | Http hok None \<Rightarrow> modal_failed st1
         | Http hok (Some hist) \<Rightarrow>
             (let points = history_points env hist
              in case map_throwing (\<lambda>p. isoDay env (fst p)) points of
                   None \<Rightarrow> modal_failed st1
                 | Some labelsHist \<Rightarrow>
                     (let pricesHist = map snd points
                      in case preds_of pres of
                           None \<Rightarrow> modal_failed st1
                         | Some pr \<Rightarrow>
                             (let st2 = modal_prices env pr st1;
                                  lastDate = (if points \<noteq> [] then fst (last points)
                                              else date_now env)
                              in case future_labels env lastDate 1 labelsHist of
                                   None \<Rightarrow> modal_failed st2
                                 | Some labelsFull \<Rightarrow>
                                     (replace_chart
                                        (price_chart_config labelsFull pricesHist pr) st2)
                                       \<lparr>btnAddPortfolio := Some (sy, nm, current_price pr),
                                        modal_shown := True\<rparr>))))"

text \<open>The \<open>onclick\<close> that \<open>openCoinModal\<close> puts on the button \<open>btnAddPortfolio\<close>.\<close>

definition btnAddPortfolio_click :: "'d browser \<Rightarrow> page \<Rightarrow> page" where
  "btnAddPortfolio_click env st =
     (case btnAddPortfolio st of
        None \<Rightarrow> st
      | Some (sy, nm, price) \<Rightarrow> addToPortfolio env sy nm price st)"

section \<open>The older front end: \<open>charts.js\<close> and \<open>frontend/js/main.js\<close>\<close>

text \<open>The body of \<open>/api/predict?coin=\<close>: a history and three lists of predictions.\<close>

record hpoint =
  h_date :: string
  h_price :: jsnum

record ppoint =
  p_date :: string
  predicted :: jsnum

record predictions =
  p3m :: "ppoint list"
  p6m :: "ppoint list"
  p1y :: "ppoint list"

text \<open>\<open>renderChart(history, predictions)\<close> of \<open>charts.js\<close>.\<close>

definition renderChart :: "hpoint list \<Rightarrow> predictions \<Rightarrow> page \<Rightarrow> page" where
  "renderChart history ps st =
     (let lbls = map h_date history;
          prices = map h_price history;
          pr3m = map predicted (p3m ps);
          pr6m = map predicted (p6m ps);
          pr1y = map predicted (p1y ps);
          predLabels = map p_date (p3m ps) @ map p_date (p6m ps) @ map p_date (p1y ps)
      in new_Chart ''coin-chart''
           \<lparr>labels = lbls @ predLabels,
            datasets =
              [\<lparr>ds_label = ''History'', ds_data = map Num prices, borderDash = []\<rparr>,
               \<lparr>ds_label = ''3M Prediction'',
                ds_data = replicate (length prices) Null @ map Num pr3m, borderDash = [5, 5]\<rparr>,
               \<lparr>ds_label = ''6M Prediction'',
                ds_data = replicate (length prices + length pr3m) Null @ map Num pr6m,
                borderDash = [5, 5]\<rparr>,
               \<lparr>ds_label = ''1Y Prediction'',
                ds_data = replicate (length prices + length pr3m + length pr6m) Null @ map Num pr1y,
                borderDash = [5, 5]\<rparr>]\<rparr> st)"

text \<open>
  \<open>openCoinModal(coinId)\<close> of \<open>frontend/js/main.js\<close>: when the request answers
  with a body, the chart is rendered from it. The flip class, the display style and the
  description that \<open>renderCoinInfo\<close> fetches are not part of the state.
\<close>

definition legacy_openCoinModal :: "(hpoint list \<times> predictions) response \<Rightarrow> page \<Rightarrow> page" where
  "legacy_openCoinModal res st =
     (case res of
        NetworkError \<Rightarrow> st
      | Http ok None \<Rightarrow> st
      | Http ok (Some (history, ps)) \<Rightarrow> renderChart history ps st)"

section \<open>One browser, to run the model\<close>

text \<open>
  An instance of the built-ins, for evaluating the functions above on concrete inputs:
  \<open>parseFloat\<close> on strings of decimal digits, the \<open>en-IN\<close> number format with at
  most two fraction digits as ECMA-402 specifies it, and dates in the UTC time zone.
\<close>

definition digit_char :: "int \<Rightarrow> char" where
  "digit_char d = ''0123456789'' ! nat d"

function digits :: "int \<Rightarrow> string" where
  "digits n = (if n < 10 then [digit_char n] else digits (n div 10) @ [digit_char (n mod 10)])"
  by pat_completeness auto
termination
  by (relation "measure nat") auto

definition digit_of :: "char \<Rightarrow> int option" where
  "digit_of c = map_option int (findIndex (\<lambda>d. d = c) ''0123456789'')"

fun digits_value :: "int \<Rightarrow> string \<Rightarrow> int option" where
  "digits_value acc [] = Some acc"
| "digits_value acc (c # cs) =
     (case digit_of c of None \<Rightarrow> None | Some d \<Rightarrow> digits_value (10 * acc + d) cs)"

text \<open>
  \<open>parseFloat\<close> on a string of decimal digits. On any other string this stand-in
  answers NaN, as the built-in does when the string has no numeric prefix.
\<close>

definition parseFloat_digits :: "string \<Rightarrow> jsnum" where
  "parseFloat_digits v =
     (if v = [] then NaN
      else case digits_value 0 v of None \<Rightarrow> NaN | Some k \<Rightarrow> Fin (of_int k))"

text \<open>
  Indian grouping of the digits of an integer: the last three digits, then groups of
  two. Both functions work on the reversed digits.
\<close>

fun pairs_grouped :: "string \<Rightarrow> string" where
  "pairs_grouped (a # b # c # cs) = a # b # CHR '','' # pairs_grouped (c # cs)"
| "pairs_grouped cs = cs"

definition indian_grouping :: "string \<Rightarrow> string" where
  "indian_grouping ds =
     (let r = rev ds
      in if length r \<le> 3 then ds
         else rev (take 3 r @ CHR '','' # pairs_grouped (drop 3 r)))"

text \<open>The fraction of a number of hundredths, without trailing zeros.\<close>

definition fraction_text :: "int \<Rightarrow> string" where
  "fraction_text fp =
     (if fp = 0 then []
      else CHR ''.'' # digit_char (fp div 10) #
           (if fp mod 10 = 0 then [] else [digit_char (fp mod 10)]))"

fun format_enIN :: "jsnum \<Rightarrow> string" where
  "format_enIN NaN = ''NaN''"
| "format_enIN PInf = [CHR 0xE2, CHR 0x88, CHR 0x9E]"
| "format_enIN NInf = CHR ''-'' # [CHR 0xE2, CHR 0x88, CHR 0x9E]"
| "format_enIN (Fin r) =
     (let c = \<lfloor>\<bar>r\<bar> * 100 + 1 / 2\<rfloor>
      in (if r < 0 then ''-'' else []) @ indian_grouping (digits (c div 100)) @
         fraction_text (c mod 100))"

text \<open>
  \<open>Number.prototype.toString\<close> on a number of at most two decimals below \<open>10^21\<close>,
  which is what \<open>formatINR\<close> hands to it.
\<close>

fun plain_toString :: "jsnum \<Rightarrow> string" where
  "plain_toString NaN = ''NaN''"
| "plain_toString PInf = ''Infinity''"
| "plain_toString NInf = ''-Infinity''"
| "plain_toString (Fin r) =
     (let c = \<lfloor>\<bar>r\<bar> * 100 + 1 / 2\<rfloor>
      in (if r < 0 \<and> c \<noteq> 0 then ''-'' else []) @ digits (c div 100) @ fraction_text (c mod 100))"

text \<open>
  A date object is its time value in milliseconds, \<open>None\<close> for an invalid date.
  \<open>civil_of_days\<close> is the proleptic Gregorian date (year, month, day) of a day
  number counted from 1970-01-01.
\<close>

definition civil_of_days :: "int \<Rightarrow> int \<times> int \<times> int" where
  "civil_of_days z0 =
     (let z = z0 + 719468;
          era = z div 146097;
          doe = z - era * 146097;
          yoe = (doe - doe div 1460 + doe div 36524 - doe div 146096) div 365;
          doy = doe - (365 * yoe + yoe div 4 - yoe div 100);
          mp = (5 * doy + 2) div 153;
          d = doy - (153 * mp + 2) div 5 + 1;
          m = (if mp < 10 then mp + 3 else mp - 9);
          y = yoe + era * 400 + (if m \<le> 2 then 1 else 0)
      in (y, m, d))"

definition padded :: "nat \<Rightarrow> int \<Rightarrow> string" where
  "padded w n = replicate (w - length (digits n)) CHR ''0'' @ digits n"

definition max_time :: int where
  "max_time = 8640000000000000"

definition utc_newDate :: "jsnum \<Rightarrow> int option" where
  "utc_newDate n =
     (case n of
        Fin r \<Rightarrow> (let t = (if 0 \<le> r then \<lfloor>r\<rfloor> else - \<lfloor>- r\<rfloor>)
                  in if \<bar>t\<bar> \<le> max_time then Some t else None)
      | _ \<Rightarrow> None)"

definition utc_plusDays :: "int option \<Rightarrow> nat \<Rightarrow> int option" where
  "utc_plusDays d i =
     (case d of
        None \<Rightarrow> None
      | Some t \<Rightarrow> (let t' = t + int i * 86400000
                   in if \<bar>t'\<bar> \<le> max_time then Some t' else None))"

definition utc_isoDay :: "int option \<Rightarrow> string option" where
  "utc_isoDay d =
     (case d of
        None \<Rightarrow> None
      | Some t \<Rightarrow>
          (case civil_of_days (t div 86400000) of
             (y, m, dd) \<Rightarrow>
               Some (take 10
                 ((if 0 \<le> y \<and> y \<le> 9999 then padded 4 y
                   else (if y < 0 then ''-'' else ''+'') @ padded 6 \<bar>y\<bar>) @
                  ''-'' @ padded 2 m @ ''-'' @ padded 2 dd))))"

text \<open>The browser, on the day 2025-01-01.\<close>

definition utc_browser :: "int option browser" where
  "utc_browser =
     \<lparr>parseFloat = parseFloat_digits,
      intl_format = (\<lambda>n. Some (format_enIN n)),
      number_toString = plain_toString,
      newDate = utc_newDate,
      date_now = Some 1735689600000,
      plusDays = utc_plusDays,
      isoDay = utc_isoDay\<rparr>"

text \<open>A freshly loaded page with every element, nothing stored and nothing rendered.\<close>

definition fresh_page :: page where
  "fresh_page =
     \<lparr>ls_theme = None, ls_portfolio = None, data_theme = None, themeToggle = Some False,
      body_dark_mode = False, grid = Some [], spinner_display = Some [],
      modalLogo = [], modalName = [], modalSymbol = [], modalAbout = [],
      modalCurrent = [], pred3m = [], pred6m = [], pred1y = [],
      modal_shown = False, btnAddPortfolio = None,
      modeQty = Some True, inputQty = Some [], inputBudget = Some [],
      chart = None, instances = [], created = 0, toasts = [], divisions = []\<rparr>"

section \<open>Properties of the portfolio\<close>

subsection \<open>JSON round trip and \<open>findIndex\<close>\<close>

lemma stringify_parse_qty: "stringify_qty (parse_qty q) = q"
  by (cases q) simp_all

lemma stringify_parse_entry: "stringify_entry (parse_entry e) = e"
  by (simp add: stringify_entry_def parse_entry_def stringify_parse_qty)

lemma stringify_parse_comp: "map (stringify_entry \<circ> parse_entry) l = l"
  by (induction l) (simp_all add: stringify_parse_entry)

lemma findIndex_None: "findIndex p xs = None \<longleftrightarrow> (\<forall>x\<in>set xs. \<not> p x)"
  by (induction xs) auto

lemma findIndex_Some:
  "findIndex p xs = Some i \<Longrightarrow> i < length xs \<and> p (xs ! i) \<and> (\<forall>j<i. \<not> p (xs ! j))"
proof (induction xs arbitrary: i)
  case Nil
  then show ?case by simp
next
  case (Cons x xs)
  show ?case
  proof (cases "p x")
    case True
    with Cons.prems show ?thesis by simp
  next
    case False
    with Cons.prems obtain k where k: "findIndex p xs = Some k" "i = Suc k"
      by auto
    from Cons.IH[OF k(1)] False k(2) show ?thesis
      by (auto simp: less_Suc_eq_0_disj)
  qed
qed

lemma findIndex_map: "findIndex p (map f xs) = findIndex (p \<circ> f) xs"
  by (induction xs) simp_all

lemma findIndex_parse:
  "findIndex (\<lambda>x. m_symbol x = s) (map parse_entry old) = findIndex (\<lambda>e. symbol e = s) old"
  by (simp add: findIndex_map comp_def parse_entry_def)

lemma filter_update_other:
  "i < length xs \<Longrightarrow> \<not> P (xs ! i) \<Longrightarrow> \<not> P y \<Longrightarrow> filter P (xs[i := y]) = filter P xs"
proof (induction xs arbitrary: i)
  case Nil
  then show ?case by simp
next
  case (Cons x xs)
  then show ?case by (cases i) auto
qed

subsection \<open>Merging into the persisted list\<close>

lemma pentry_qty_update:
  "\<lparr>symbol = symbol e, name = name e, qty = v\<rparr> = e\<lparr>qty := v\<rparr>"
  by (cases e) simp

lemma merge_persisted_new:
  assumes "findIndex (\<lambda>e. symbol e = s) old = None"
  shows "map stringify_entry (merge_entry s n f (map parse_entry old)) =
           old @ [\<lparr>symbol = s, name = n, qty = stringify_qty (VNum f)\<rparr>]"
  using assms
  by (simp add: merge_entry_def findIndex_parse stringify_parse_comp stringify_entry_def)

lemma merge_persisted_old:
  assumes "findIndex (\<lambda>e. symbol e = s) old = Some i"
  shows "map stringify_entry (merge_entry s n f (map parse_entry old)) =
           old[i := (old ! i)\<lparr>qty := stringify_qty (js_plus_assign (parse_qty (qty (old ! i))) f)\<rparr>]"
proof -
  from findIndex_Some[OF assms] have i: "i < length old" by simp
  then show ?thesis using assms
    by (simp add: merge_entry_def findIndex_parse map_update stringify_parse_comp
        stringify_entry_def parse_entry_def pentry_qty_update)
qed



lemma merge_persisted_symbols:
  "map symbol (map stringify_entry (merge_entry s n f (map parse_entry old))) =
     (if s \<in> set (map symbol old) then map symbol old else map symbol old @ [s])"
proof (cases "findIndex (\<lambda>e. symbol e = s) old")
  case None
  then have "s \<notin> set (map symbol old)" by (auto simp: findIndex_None)
  with None show ?thesis by (simp add: merge_persisted_new)
next
  case (Some i)
  from findIndex_Some[OF Some] have i: "i < length old" "symbol (old ! i) = s" by auto
  then have "s \<in> set (map symbol old)" by (metis length_map nth_map nth_mem)
  moreover from i have "map symbol (old[i := (old ! i)\<lparr>qty := v\<rparr>]) = map symbol old" for v
    by (simp add: map_update list_update_same_conv)
  ultimately show ?thesis by (simp add: merge_persisted_old[OF Some])
qed

lemma merge_persisted_names:
  assumes "s \<in> set (map symbol old)"
  shows "map name (map stringify_entry (merge_entry s n f (map parse_entry old))) = map name old"
proof (cases "findIndex (\<lambda>e. symbol e = s) old")
  case None
  with assms show ?thesis by (auto simp: findIndex_None)
next
  case (Some i)
  from findIndex_Some[OF Some] have i: "i < length old" by auto
  then have "map name (old[i := (old ! i)\<lparr>qty := v\<rparr>]) = map name old" for v
    by (simp add: map_update list_update_same_conv)
  then show ?thesis by (simp add: merge_persisted_old[OF Some])
qed

lemma merge_persisted_frame:
  "filter (\<lambda>e. symbol e \<noteq> s) (map stringify_entry (merge_entry s n f (map parse_entry old))) =
     filter (\<lambda>e. symbol e \<noteq> s) old"
proof (cases "findIndex (\<lambda>e. symbol e = s) old")
  case None
  then show ?thesis by (simp add: merge_persisted_new)
next
  case (Some i)
  from findIndex_Some[OF Some] show ?thesis
    by (simp add: merge_persisted_old[OF Some] filter_update_other)
qed

lemma read_portfolio_store:
  "read_portfolio (store_entry s n f st) =
     map stringify_entry (merge_entry s n f (map parse_entry (read_portfolio st)))"
  by (simp add: store_entry_def read_portfolio_def toast_def Let_def)

lemma read_portfolio_toast: "read_portfolio (toast m st) = read_portfolio st"
  by (simp add: read_portfolio_def toast_def)

lemma finalQty_read_portfolio:
  "finalQty env cp st = Inr (f, st') \<Longrightarrow> read_portfolio st' = read_portfolio st"
  by (auto simp: finalQty_def Let_def read_portfolio_def split: if_splits)

text \<open>What a call leaves in the list, by the outcome of the validation.\<close>

lemma read_portfolio_add:
  "read_portfolio (addToPortfolio env s n cp st) =
     (case finalQty env cp st of
        Inl msg \<Rightarrow> read_portfolio st
      | Inr (f, st') \<Rightarrow>
          map stringify_entry (merge_entry s n f (map parse_entry (read_portfolio st))))"
  by (auto simp: addToPortfolio_def read_portfolio_toast read_portfolio_store
      finalQty_read_portfolio split: sum.splits)







lemma not_mode_False: "modeQty st \<noteq> Some True \<Longrightarrow> (case modeQty st of None \<Rightarrow> False | Some c \<Rightarrow> c) = False"
  by (cases "modeQty st") auto

lemma truthy_not_zero: "truthy n \<Longrightarrow> n \<noteq> Fin 0"
  by (cases n) auto

lemma divisions_store: "divisions (store_entry s n f st) = divisions st"
  by (simp add: store_entry_def toast_def Let_def)

lemma divisions_add:
  "divisions (addToPortfolio env s n cp st) =
     (case finalQty env cp st of Inl msg \<Rightarrow> divisions st | Inr (f, st') \<Rightarrow> divisions st')"
  by (auto simp: addToPortfolio_def toast_def divisions_store split: sum.splits)

lemma parse_samples:
  "parseFloat utc_browser ''0'' = Fin 0"
  "parseFloat utc_browser ''2'' = Fin 2"
  "parseFloat utc_browser ''3'' = Fin 3"
  "parseFloat utc_browser ''1000'' = Fin 1000"
  by (simp_all add: utc_browser_def parseFloat_digits_def digit_of_def)



text \<open>
  C2. A rejected input writes nothing: in quantity mode with a quantity that is at most
  zero or not a number, and in budget mode with a budget that is at most zero or not a
  number or with a current price that is missing, \<open>null\<close>, zero or NaN, the call only
  shows a message and the item under the key \<open>portfolio\<close> is what it was.
\<close>
theorem addToPortfolio_rejected_no_write:
  assumes "if modeQty st = Some True
           then js_le0 (parseFloat env (value_or_0 (inputQty st))) \<or>
                parseFloat env (value_or_0 (inputQty st)) = NaN
           else js_le0 (parseFloat env (value_or_0 (inputBudget st))) \<or>
                parseFloat env (value_or_0 (inputBudget st)) = NaN \<or>
                \<not> truthy_field cp"
  shows "ls_portfolio (addToPortfolio env s n cp st) = ls_portfolio st \<and>
         (\<exists>msg. addToPortfolio env s n cp st = toast msg st)"
proof -
  have le0: "js_le0 x \<or> x = NaN \<longleftrightarrow> \<not> truthy x \<or> js_le0 x" for x
    by (cases x) auto
  have "\<exists>msg. finalQty env cp st = Inl msg"
  proof (cases "modeQty st = Some True")
    case True
    with assms le0 show ?thesis by (simp add: finalQty_def)
  next
    case False
    then have "(case modeQty st of None \<Rightarrow> False | Some c \<Rightarrow> c) = False"
      by (cases "modeQty st") auto
    with False assms le0[of "parseFloat env (value_or_0 (inputBudget st))"] show ?thesis
      by (auto simp: finalQty_def Let_def)
  qed
  then obtain msg where "addToPortfolio env s n cp st = toast msg st"
    by (auto simp: addToPortfolio_def)
  then show ?thesis by (auto simp: toast_def)
qed

theorem addToPortfolio_rejected_no_write_witness:
  "js_le0 (parseFloat utc_browser (value_or_0 (inputQty fresh_page))) \<and>
   addToPortfolio utc_browser ''BTC'' ''Bitcoin'' Undefined fresh_page =
     toast ''Enter a valid quantity.'' fresh_page \<and>
   ls_portfolio (addToPortfolio utc_browser ''BTC'' ''Bitcoin'' Undefined fresh_page) =
     ls_portfolio fresh_page \<and>
   ls_portfolio (addToPortfolio utc_browser ''BTC'' ''Bitcoin'' Undefined
      (fresh_page\<lparr>modeQty := Some False, inputBudget := Some ''1000''\<rparr>)) =
     ls_portfolio fresh_page"
  using addToPortfolio_rejected_no_write[where st = fresh_page and env = utc_browser
      and s = "''BTC''" and n = "''Bitcoin''" and cp = Undefined]
    addToPortfolio_rejected_no_write[where
      st = "fresh_page\<lparr>modeQty := Some False, inputBudget := Some ''1000''\<rparr>"
      and env = utc_browser and s = "''BTC''" and n = "''Bitcoin''" and cp = Undefined]
  by (simp add: fresh_page_def parse_samples addToPortfolio_def finalQty_def)

text \<open>
  C9. Frame property: whatever the call does, the entries whose symbol differs from
  \<open>s\<close> are the same entries in the same order before and after it. When the list
  has \<open>s\<close>, the symbols and the names of all its entries stay as they are, so that
  at most a \<open>qty\<close> of \<open>s\<close> changes; when it does not, the list is unchanged or
  gains one entry for \<open>s\<close> at its end.
\<close>
theorem addToPortfolio_frame:
  "filter (\<lambda>e. symbol e \<noteq> s) (read_portfolio (addToPortfolio env s n cp st)) =
     filter (\<lambda>e. symbol e \<noteq> s) (read_portfolio st)
   \<and> (s \<in> set (map symbol (read_portfolio st)) \<longrightarrow>
        map symbol (read_portfolio (addToPortfolio env s n cp st)) = map symbol (read_portfolio st) \<and>
        map name (read_portfolio (addToPortfolio env s n cp st)) = map name (read_portfolio st))
   \<and> (s \<notin> set (map symbol (read_portfolio st)) \<longrightarrow>
        read_portfolio (addToPortfolio env s n cp st) = read_portfolio st \<or>
        (\<exists>q. read_portfolio (addToPortfolio env s n cp st) =
               read_portfolio st @ [\<lparr>symbol = s, name = n, qty = q\<rparr>]))"
proof (cases "finalQty env cp st")
  case (Inl msg)
  then show ?thesis by (simp add: read_portfolio_add)
next
  case (Inr p)
  obtain f st' where p: "p = (f, st')" by (cases p)
  let ?old = "read_portfolio st"
  have new: "read_portfolio (addToPortfolio env s n cp st) =
      map stringify_entry (merge_entry s n f (map parse_entry ?old))"
    by (simp add: read_portfolio_add Inr p)
  have "s \<notin> set (map symbol ?old) \<Longrightarrow> findIndex (\<lambda>e. symbol e = s) ?old = None"
    by (auto simp: findIndex_None)
  then have app: "s \<notin> set (map symbol ?old) \<Longrightarrow>
      map stringify_entry (merge_entry s n f (map parse_entry ?old)) =
        ?old @ [\<lparr>symbol = s, name = n, qty = stringify_qty (VNum f)\<rparr>]"
    by (rule merge_persisted_new)
  show ?thesis
    unfolding new
    using merge_persisted_frame[of s n f ?old] merge_persisted_symbols[of s n f ?old]
      merge_persisted_names[of s ?old n f] app
    by (auto simp del: map_map)
qed

theorem addToPortfolio_frame_witness:
  "read_portfolio (addToPortfolio utc_browser ''BTC'' ''Bitcoin'' Undefined
      (fresh_page\<lparr>ls_portfolio := Some [\<lparr>symbol = ''ETH'', name = ''Ethereum'', qty = QNum 1\<rparr>],
                   inputQty := Some ''2''\<rparr>)) =
     [\<lparr>symbol = ''ETH'', name = ''Ethereum'', qty = QNum 1\<rparr>,
      \<lparr>symbol = ''BTC'', name = ''Bitcoin'', qty = QNum 2\<rparr>] \<and>
   read_portfolio (addToPortfolio utc_browser ''ETH'' ''Ether'' Undefined
      (fresh_page\<lparr>ls_portfolio := Some [\<lparr>symbol = ''ETH'', name = ''Ethereum'', qty = QNum 1\<rparr>,
                                        \<lparr>symbol = ''BTC'', name = ''Bitcoin'', qty = QNum 2\<rparr>],
                   inputQty := Some ''3''\<rparr>)) =
     [\<lparr>symbol = ''ETH'', name = ''Ethereum'', qty = QNum 4\<rparr>,
      \<lparr>symbol = ''BTC'', name = ''Bitcoin'', qty = QNum 2\<rparr>]"
  using addToPortfolio_frame[where env = utc_browser and s = "''BTC''" and n = "''Bitcoin''"
      and cp = Undefined and st = "fresh_page\<lparr>ls_portfolio :=
         Some [\<lparr>symbol = ''ETH'', name = ''Ethereum'', qty = QNum 1\<rparr>], inputQty := Some ''2''\<rparr>"]
    addToPortfolio_frame[where env = utc_browser and s = "''ETH''" and n = "''Ether''"
      and cp = Undefined and st = "fresh_page\<lparr>ls_portfolio :=
         Some [\<lparr>symbol = ''ETH'', name = ''Ethereum'', qty = QNum 1\<rparr>,
               \<lparr>symbol = ''BTC'', name = ''Bitcoin'', qty = QNum 2\<rparr>], inputQty := Some ''3''\<rparr>"]
  by (simp add: fresh_page_def parse_samples read_portfolio_def addToPortfolio_def finalQty_def
      store_entry_def merge_entry_def toast_def parse_entry_def stringify_entry_def)



text \<open>
  C10. The division is guarded: a division that a call evaluates has the budget as its
  dividend and the current price as its divisor, the budget is truthy and not
  \<open><= 0\<close>, and the price is truthy, hence not zero. The divisions recorded before the
  call stay as they are. In budget mode a price that is missing, \<open>null\<close>, zero or NaN
  is rejected with the message, before any division.
\<close>
theorem addToPortfolio_division_guarded:
  "(\<forall>(b, p) \<in> set (drop (length (divisions st)) (divisions (addToPortfolio env s n cp st))).
       p = to_number cp \<and> truthy_field cp \<and> p \<noteq> Fin 0 \<and>
       b = parseFloat env (value_or_0 (inputBudget st)) \<and> truthy b \<and> \<not> js_le0 b)
   \<and> take (length (divisions st)) (divisions (addToPortfolio env s n cp st)) = divisions st
   \<and> (modeQty st \<noteq> Some True \<and> \<not> truthy_field cp \<longrightarrow>
        addToPortfolio env s n cp st =
          toast ''Enter a valid budget (and ensure price loaded).'' st)"
proof -
  let ?b = "parseFloat env (value_or_0 (inputBudget st))"
  let ?d = "divisions (addToPortfolio env s n cp st)"
  have cases: "?d = divisions st \<or>
      (?d = divisions st @ [(?b, to_number cp)] \<and> truthy ?b \<and> \<not> js_le0 ?b \<and> truthy_field cp)"
    by (auto simp: divisions_add finalQty_def Let_def split: sum.splits if_splits)
  have rej: "addToPortfolio env s n cp st =
          toast ''Enter a valid budget (and ensure price loaded).'' st"
    if "modeQty st \<noteq> Some True \<and> \<not> truthy_field cp"
    using that by (simp add: addToPortfolio_def finalQty_def not_mode_False)
  have nz: "to_number cp \<noteq> Fin 0" if "truthy_field cp"
    using that by (cases cp) (auto dest: truthy_not_zero)
  from cases rej nz show ?thesis
    by auto
qed

theorem addToPortfolio_division_guarded_witness:
  "divisions (addToPortfolio utc_browser ''BTC'' ''Bitcoin'' (Num (Fin 5000000))
      (fresh_page\<lparr>modeQty := Some False, inputBudget := Some ''1000''\<rparr>)) =
     [(Fin 1000, Fin 5000000)] \<and>
   addToPortfolio utc_browser ''BTC'' ''Bitcoin'' (Num (Fin 0))
      (fresh_page\<lparr>modeQty := Some False, inputBudget := Some ''1000''\<rparr>) =
     toast ''Enter a valid budget (and ensure price loaded).''
      (fresh_page\<lparr>modeQty := Some False, inputBudget := Some ''1000''\<rparr>) \<and>
   addToPortfolio utc_browser ''BTC'' ''Bitcoin'' Undefined
      (fresh_page\<lparr>modeQty := Some False, inputBudget := Some ''1000''\<rparr>) =
     toast ''Enter a valid budget (and ensure price loaded).''
      (fresh_page\<lparr>modeQty := Some False, inputBudget := Some ''1000''\<rparr>)"
  using addToPortfolio_division_guarded[where
      st = "fresh_page\<lparr>modeQty := Some False, inputBudget := Some ''1000''\<rparr>"
      and env = utc_browser and s = "''BTC''" and n = "''Bitcoin''" and cp = "Num (Fin 0)"]
    addToPortfolio_division_guarded[where
      st = "fresh_page\<lparr>modeQty := Some False, inputBudget := Some ''1000''\<rparr>"
      and env = utc_browser and s = "''BTC''" and n = "''Bitcoin''" and cp = Undefined]
    addToPortfolio_division_guarded[where
      st = "fresh_page\<lparr>modeQty := Some False, inputBudget := Some ''1000''\<rparr>"
      and env = utc_browser and s = "''BTC''" and n = "''Bitcoin''" and cp = "Num (Fin 5000000)"]
  by (simp add: fresh_page_def parse_samples divisions_add finalQty_def)

section \<open>Properties of the grid\<close>

text \<open>
  C5. On a page that has the grid element, \<open>renderGrid\<close> over any catalog leaves
  exactly one card per catalog entry, in the order of the catalog and with the id, symbol,
  name and image of its entry, whether the prices arrive or not. When the price fetch
  fails (the request is rejected, the response is not ok, or the body does not parse),
  every card carries the placeholder dash as its price.
\<close>
theorem renderGrid_one_card_per_coin:
  assumes "grid st = Some old"
  shows "\<exists>cards. grid (renderGrid_on catalog env res st) = Some cards \<and>
           length cards = length catalog \<and>
           map card_id cards = map coin_id catalog \<and>
           map card_symbol cards = map coin_symbol catalog \<and>
           map card_name cards = map coin_name catalog \<and>
           map card_img cards = map coin_img catalog \<and>
           (fetchLivePricesInINR res = None \<longrightarrow>
              map card_price cards = replicate (length catalog) dash)"
proof (cases "fetchLivePricesInINR res")
  case None
  have "map (\<lambda>c. dash) catalog = replicate (length catalog) dash"
    by (simp add: map_replicate_const)
  with None assms show ?thesis
    by (simp add: renderGrid_on_def coinCardTemplate_def price_text_def comp_def)
next
  case (Some prices)
  with assms show ?thesis
    by (simp add: renderGrid_on_def coinCardTemplate_def comp_def)
qed

lemma COINS_length: "length COINS = 20"
  by (simp add: COINS_def)

theorem renderGrid_one_card_per_coin_witness:
  "grid fresh_page = Some [] \<and>
   (\<exists>cards. grid (renderGrid utc_browser NetworkError fresh_page) = Some cards \<and>
            length cards = 20 \<and> map card_price cards = replicate 20 dash \<and>
            map card_symbol cards = map coin_symbol COINS)"
  using renderGrid_one_card_per_coin[where st = fresh_page and old = "[]" and catalog = COINS
      and env = utc_browser and res = NetworkError]
  by (auto simp: fresh_page_def renderGrid_def COINS_length)

section \<open>Properties of the modal\<close>




declare future_labels.simps [simp del]



lemma modal_failed_chart:
  "created (modal_failed st) = created st" "instances (modal_failed st) = instances st"
  "chart (modal_failed st) = chart st"
  by (simp_all add: modal_failed_def toast_def)

lemma modal_header_chart:
  "created (modal_header sy nm st) = created st" "instances (modal_header sy nm st) = instances st"
  "chart (modal_header sy nm st) = chart st"
  by (simp_all add: modal_header_def)

lemma modal_prices_chart:
  "created (modal_prices env pr st) = created st" "instances (modal_prices env pr st) = instances st"
  "chart (modal_prices env pr st) = chart st"
  by (simp_all add: modal_prices_def)

lemma replace_chart_fields:
  "created (replace_chart c st) = Suc (created st)"
  "chart (replace_chart c st) = Some (created st)"
  "instances (replace_chart c st) =
     (case chart st of None \<Rightarrow> instances st
      | Some i \<Rightarrow> filter (\<lambda>x. inst_id x \<noteq> i) (instances st)) @
     [\<lparr>inst_id = created st, canvas = ''priceChart'', cfg = c\<rparr>]"
  by (simp_all add: replace_chart_def new_Chart_def destroy_def Let_def split: option.splits)

lemmas chart_frame = modal_failed_chart modal_header_chart modal_prices_chart

text \<open>The call either builds no chart, or goes through every stage and builds one.\<close>

lemma openCoinModal_outcome:
  fixes env :: "'d browser"
  shows "(created (openCoinModal env sy ident nm hres pres st) = created st \<and>
          instances (openCoinModal env sy ident nm hres pres st) = instances st \<and>
          chart (openCoinModal env sy ident nm hres pres st) = chart st) \<or>
         (\<exists>hok hist lh pr lf.
            hres = Http hok (Some hist) \<and>
            map_throwing (\<lambda>p. isoDay env (fst p)) (history_points env hist) = Some lh \<and>
            preds_of pres = Some pr \<and>
            future_labels env
              (if history_points env hist \<noteq> [] then fst (last (history_points env hist))
               else date_now env) 1 lh = Some lf \<and>
            created (openCoinModal env sy ident nm hres pres st) = Suc (created st) \<and>
            chart (openCoinModal env sy ident nm hres pres st) = Some (created st) \<and>
            instances (openCoinModal env sy ident nm hres pres st) =
              (case chart st of None \<Rightarrow> instances st
               | Some i \<Rightarrow> filter (\<lambda>x. inst_id x \<noteq> i) (instances st)) @
              [\<lparr>inst_id = created st, canvas = ''priceChart'',
                cfg = price_chart_config lf (map snd (history_points env hist)) pr\<rparr>])"
proof (cases hres)
  case NetworkError
  then show ?thesis by (simp add: openCoinModal_def chart_frame)
next
  case (Http hok body)
  show ?thesis
  proof (cases body)
    case None
    with Http show ?thesis by (simp add: openCoinModal_def chart_frame)
  next
    case (Some hist)
    note h = Http Some
    show ?thesis
    proof (cases "map_throwing (\<lambda>p. isoDay env (fst p)) (history_points env hist)")
      case None
      with h show ?thesis by (simp add: openCoinModal_def chart_frame)
    next
      case lh: (Some lh)
      show ?thesis
      proof (cases "preds_of pres")
        case None
        with h lh show ?thesis by (simp add: openCoinModal_def chart_frame)
      next
        case pr: (Some pr)
        show ?thesis
        proof (cases "future_labels env
              (if history_points env hist \<noteq> [] then fst (last (history_points env hist))
               else date_now env) 1 lh")
          case None
          with h lh pr show ?thesis by (simp add: openCoinModal_def chart_frame Let_def)
        next
          case lf: (Some lf)
          with h lh pr show ?thesis
            by (simp add: openCoinModal_def chart_frame Let_def replace_chart_fields
                split: option.splits)
        qed
      qed
    qed
  qed
qed








section \<open>Properties of the price fields\<close>

lemma formatINR_not_dash: "formatINR env n \<noteq> dash"
  by (simp add: formatINR_def INR_SYMBOL_def dash_def split: option.splits)

lemma price_text_dash: "price_text env v = dash \<longleftrightarrow> \<not> truthy_field v"
  by (simp add: price_text_def formatINR_not_dash)

lemma modal_prices_fields:
  "modalCurrent (modal_prices env pr st) = price_text env (current_price pr)"
  "pred3m (modal_prices env pr st) = price_text env (pred_3m pr)"
  "pred6m (modal_prices env pr st) = price_text env (pred_6m pr)"
  "pred1y (modal_prices env pr st) = price_text env (pred_1y pr)"
  by (simp_all add: modal_prices_def)

lemma price_fields_kept:
  "modalCurrent (modal_failed st) = modalCurrent st" "pred3m (modal_failed st) = pred3m st"
  "pred6m (modal_failed st) = pred6m st" "pred1y (modal_failed st) = pred1y st"
  "modalCurrent (replace_chart c st) = modalCurrent st" "pred3m (replace_chart c st) = pred3m st"
  "pred6m (replace_chart c st) = pred6m st" "pred1y (replace_chart c st) = pred1y st"
  by (simp_all add: modal_failed_def toast_def replace_chart_def new_Chart_def destroy_def Let_def
      split: option.splits)

lemma openCoinModal_price_fields:
  assumes "hres = Http hok (Some hist)"
    and "map_throwing (\<lambda>p. isoDay env (fst p)) (history_points env hist) = Some lh"
    and "preds_of pres = Some pr"
  shows "modalCurrent (openCoinModal env sy ident nm hres pres st) = price_text env (current_price pr)"
    and "pred3m (openCoinModal env sy ident nm hres pres st) = price_text env (pred_3m pr)"
    and "pred6m (openCoinModal env sy ident nm hres pres st) = price_text env (pred_6m pr)"
    and "pred1y (openCoinModal env sy ident nm hres pres st) = price_text env (pred_1y pr)"
  using assms
  by (simp_all add: openCoinModal_def Let_def modal_prices_fields price_fields_kept
      split: option.splits)

text \<open>
  C7, as amended. When the history response arrives with valid dates and the prediction
  response is there, each of the four fields of the modal (current price, \<open>pred3m\<close>,
  \<open>pred6m\<close>, \<open>pred1y\<close>) shows the INR-formatted value exactly when the value of its
  field in the response is truthy, a number other than zero and NaN, and shows the dash
  exactly when the field is absent, \<open>null\<close>, zero or NaN.
\<close>
theorem openCoinModal_price_fields_truthy:
  assumes "hres = Http hok (Some hist)"
    and "map_throwing (\<lambda>p. isoDay env (fst p)) (history_points env hist) = Some lh"
    and "preds_of pres = Some pr"
  shows
    "modalCurrent (openCoinModal env sy ident nm hres pres st) =
       (if truthy_field (current_price pr) then formatINR env (to_number (current_price pr)) else dash) \<and>
     pred3m (openCoinModal env sy ident nm hres pres st) =
       (if truthy_field (pred_3m pr) then formatINR env (to_number (pred_3m pr)) else dash) \<and>
     pred6m (openCoinModal env sy ident nm hres pres st) =
       (if truthy_field (pred_6m pr) then formatINR env (to_number (pred_6m pr)) else dash) \<and>
     pred1y (openCoinModal env sy ident nm hres pres st) =
       (if truthy_field (pred_1y pr) then formatINR env (to_number (pred_1y pr)) else dash) \<and>
     (modalCurrent (openCoinModal env sy ident nm hres pres st) = dash
        \<longleftrightarrow> \<not> truthy_field (current_price pr)) \<and>
     (pred3m (openCoinModal env sy ident nm hres pres st) = dash \<longleftrightarrow> \<not> truthy_field (pred_3m pr)) \<and>
     (pred6m (openCoinModal env sy ident nm hres pres st) = dash \<longleftrightarrow> \<not> truthy_field (pred_6m pr)) \<and>
     (pred1y (openCoinModal env sy ident nm hres pres st) = dash \<longleftrightarrow> \<not> truthy_field (pred_1y pr))"
  unfolding openCoinModal_price_fields[OF assms] price_text_dash
  by (simp add: price_text_def)

lemma format_samples:
  "formatINR utc_browser (Fin 5200000) =
     INR_SYMBOL @ ''52,00,000''"
  "formatINR utc_browser (Fin 5000000) =
     INR_SYMBOL @ ''50,00,000''"
  "formatINR utc_browser (Fin 0) = INR_SYMBOL @ ''0''"
  by code_simp+

lemma no_history_labels:
  "map_throwing (\<lambda>p. isoDay env (fst p)) (history_points env None) = Some []"
  by (simp add: history_points_def)

text \<open>
  The example of the specification: \<open>{current_price: 5000000, pred_3m: 5200000}\<close>
  shows the rupee sign followed by \<open>52,00,000\<close> in \<open>pred3m\<close> and the dash in
  \<open>pred1y\<close>.
\<close>
theorem openCoinModal_price_fields_truthy_witness:
  "modalCurrent (openCoinModal utc_browser ''BTC'' ''bitcoin'' ''Bitcoin'' (Http True (Some None))
      (Http True (Some (no_preds\<lparr>current_price := Num (Fin 5000000), pred_3m := Num (Fin 5200000)\<rparr>)))
      fresh_page) = INR_SYMBOL @ ''50,00,000'' \<and>
   pred3m (openCoinModal utc_browser ''BTC'' ''bitcoin'' ''Bitcoin'' (Http True (Some None))
      (Http True (Some (no_preds\<lparr>current_price := Num (Fin 5000000), pred_3m := Num (Fin 5200000)\<rparr>)))
      fresh_page) = INR_SYMBOL @ ''52,00,000'' \<and>
   pred6m (openCoinModal utc_browser ''BTC'' ''bitcoin'' ''Bitcoin'' (Http True (Some None))
      (Http True (Some (no_preds\<lparr>current_price := Num (Fin 5000000), pred_3m := Num (Fin 5200000)\<rparr>)))
      fresh_page) = dash \<and>
   pred1y (openCoinModal utc_browser ''BTC'' ''bitcoin'' ''Bitcoin'' (Http True (Some None))
      (Http True (Some (no_preds\<lparr>current_price := Num (Fin 5000000), pred_3m := Num (Fin 5200000)\<rparr>)))
      fresh_page) = dash"
proof -
  let ?pr = "no_preds\<lparr>current_price := Num (Fin 5000000), pred_3m := Num (Fin 5200000)\<rparr>"
  have p: "preds_of (Http True (Some ?pr)) = Some ?pr" by simp
  from openCoinModal_price_fields_truthy[where env = utc_browser and pres = "Http True (Some ?pr)"
      and st = fresh_page and sy = "''BTC''" and ident = "''bitcoin''" and nm = "''Bitcoin''",
      OF refl no_history_labels p]
  show ?thesis
    by (simp add: no_preds_def format_samples)
qed

text \<open>
  C7 as it is stated fails: the response \<open>{pred_3m: 0}\<close> has the field, and
  \<open>pred3m\<close> shows the dash, not the formatted value of 0.
\<close>
theorem openCoinModal_zero_field_renders_dash:
  "pred_3m (no_preds\<lparr>pred_3m := Num (Fin 0)\<rparr>) = Num (Fin 0) \<and>
   pred3m (openCoinModal utc_browser ''BTC'' ''bitcoin'' ''Bitcoin'' (Http True (Some None))
      (Http True (Some (no_preds\<lparr>pred_3m := Num (Fin 0)\<rparr>))) fresh_page) = dash \<and>
   formatINR utc_browser (Fin 0) = INR_SYMBOL @ ''0'' \<and>
   dash \<noteq> INR_SYMBOL @ ''0''"
proof -
  let ?pr = "no_preds\<lparr>pred_3m := Num (Fin 0)\<rparr>"
  have p: "preds_of (Http True (Some ?pr)) = Some ?pr" by simp
  have "pred3m (openCoinModal utc_browser ''BTC'' ''bitcoin'' ''Bitcoin'' (Http True (Some None))
      (Http True (Some ?pr)) fresh_page) = price_text utc_browser (pred_3m ?pr)"
    by (rule openCoinModal_price_fields(2)[OF refl no_history_labels p])
  then show ?thesis
    by (simp add: price_text_def format_samples dash_def INR_SYMBOL_def)
qed

section \<open>Properties of the theme and of the chart instances\<close>

lemma setTheme_fields:
  "ls_theme (setTheme m st) = Some m" "data_theme (setTheme m st) = Some m"
  "themeToggle (setTheme m st) = themeToggle st"
  by (simp_all add: setTheme_def)

lemma initTheme_saved:
  assumes "ls_theme st = Some t" and "t \<noteq> []"
  shows "ls_theme (initTheme st) = Some t" "data_theme (initTheme st) = Some t"
    "themeToggle (initTheme st) = map_option (\<lambda>x. t = ''dark'') (themeToggle st)"
  using assms by (auto simp: initTheme_def Let_def setTheme_def split: option.splits)

text \<open>
  C8, as amended. A flip of the checkbox \<open>themeToggle\<close> of \<open>static/js/main.js\<close>
  writes the new theme, \<open>light\<close> or \<open>dark\<close>, to local storage under the key
  \<open>theme\<close> and to the attribute \<open>data-theme\<close> of the root element; and on any
  page that is loaded with what was saved, \<open>initTheme\<close> reads the theme back and
  applies it again, to the attribute and to the checkbox.
\<close>
theorem flip_themeToggle_persists:
  assumes "themeToggle st = Some c"
  shows "ls_theme (flip_themeToggle st) = Some (if c then ''light'' else ''dark'') \<and>
         data_theme (flip_themeToggle st) = Some (if c then ''light'' else ''dark'') \<and>
         themeToggle (flip_themeToggle st) = Some (\<not> c) \<and>
         (\<forall>loaded. ls_theme loaded = ls_theme (flip_themeToggle st) \<longrightarrow>
            data_theme (initTheme loaded) = Some (if c then ''light'' else ''dark'') \<and>
            ls_theme (initTheme loaded) = Some (if c then ''light'' else ''dark'') \<and>
            themeToggle (initTheme loaded) = map_option (\<lambda>x. \<not> c) (themeToggle loaded))"
proof -
  let ?t = "if c then ''light'' else ''dark''"
  have flip: "flip_themeToggle st = setTheme ?t (st\<lparr>themeToggle := Some (\<not> c)\<rparr>)"
    using assms by (simp add: flip_themeToggle_def themeToggle_change_def)
  have ls: "ls_theme (flip_themeToggle st) = Some ?t" unfolding flip by (rule setTheme_fields)
  have dt: "data_theme (flip_themeToggle st) = Some ?t" unfolding flip by (rule setTheme_fields)
  have tg: "themeToggle (flip_themeToggle st) = Some (\<not> c)"
    unfolding flip by (simp add: setTheme_fields)
  have ne: "?t \<noteq> []" by simp
  have dk: "(?t = ''dark'') = (\<not> c)" by simp
  have "data_theme (initTheme loaded) = Some ?t \<and> ls_theme (initTheme loaded) = Some ?t \<and>
        themeToggle (initTheme loaded) = map_option (\<lambda>x. \<not> c) (themeToggle loaded)"
    if "ls_theme loaded = ls_theme (flip_themeToggle st)" for loaded
  proof -
    from that ls have "ls_theme loaded = Some ?t" by simp
    from initTheme_saved[OF this ne] dk show ?thesis by simp
  qed
  with ls dt tg show ?thesis by blast
qed

theorem flip_themeToggle_persists_witness:
  "themeToggle fresh_page = Some False \<and>
   ls_theme (flip_themeToggle fresh_page) = Some ''dark'' \<and>
   data_theme (flip_themeToggle fresh_page) = Some ''dark'' \<and>
   data_theme (initTheme (fresh_page\<lparr>ls_theme := ls_theme (flip_themeToggle fresh_page)\<rparr>)) =
     Some ''dark'' \<and>
   themeToggle (initTheme (fresh_page\<lparr>ls_theme := ls_theme (flip_themeToggle fresh_page)\<rparr>)) =
     Some True"
proof -
  have t: "themeToggle fresh_page = Some False" by (simp add: fresh_page_def)
  from flip_themeToggle_persists[OF t] t show ?thesis
    by simp
qed

text \<open>
  C8 as it is stated fails on the toggle of \<open>frontend/js/main.js\<close>: a click flips the
  class \<open>dark-mode\<close> of the body and leaves local storage and the attribute
  \<open>data-theme\<close> as they were.
\<close>
theorem legacy_theme_click_writes_nothing:
  "body_dark_mode (legacy_theme_click fresh_page) \<noteq> body_dark_mode fresh_page \<and>
   ls_theme (legacy_theme_click fresh_page) = None \<and>
   data_theme (legacy_theme_click fresh_page) = None"
  by (simp add: legacy_theme_click_def fresh_page_def)

text \<open>
  The modal of \<open>static/js/main.js\<close> keeps at most one chart: when the only chart
  alive is the one that the variable \<open>chart\<close> holds, this is so again after
  \<open>openCoinModal\<close>, whatever the two requests answer.
\<close>
lemma openCoinModal_single_chart:
  assumes "instances st = [] \<or> (\<exists>x. instances st = [x] \<and> chart st = Some (inst_id x))"
  shows "instances (openCoinModal env sy ident nm hres pres st) = [] \<or>
         (\<exists>x. instances (openCoinModal env sy ident nm hres pres st) = [x] \<and>
              chart (openCoinModal env sy ident nm hres pres st) = Some (inst_id x))"
  using openCoinModal_outcome[of env sy ident nm hres pres st] assms
  by (auto split: option.splits)

text \<open>\<open>renderChart\<close> of \<open>charts.js\<close> adds an instance and destroys none.\<close>
lemma renderChart_adds_instance:
  "\<exists>c. instances (renderChart history ps st) =
         instances st @ [\<lparr>inst_id = created st, canvas = ''coin-chart'', cfg = c\<rparr>]"
  by (simp add: renderChart_def new_Chart_def Let_def)

text \<open>
  C6 on the older front end: two modal opens of \<open>frontend/js/main.js\<close>, each with
  an answered request, leave two chart instances on the canvas \<open>coin-chart\<close>; the
  chart of the first open is not destroyed before the second one is constructed.
\<close>
theorem legacy_openCoinModal_accumulates:
  "map inst_id (instances
     (legacy_openCoinModal (Http True (Some ([], \<lparr>p3m = [], p6m = [], p1y = []\<rparr>)))
        (legacy_openCoinModal (Http True (Some ([], \<lparr>p3m = [], p6m = [], p1y = []\<rparr>)))
           fresh_page))) = [0, 1] \<and>
   map canvas (instances
     (legacy_openCoinModal (Http True (Some ([], \<lparr>p3m = [], p6m = [], p1y = []\<rparr>)))
        (legacy_openCoinModal (Http True (Some ([], \<lparr>p3m = [], p6m = [], p1y = []\<rparr>)))
           fresh_page))) = [''coin-chart'', ''coin-chart'']"
  by (simp add: legacy_openCoinModal_def renderChart_def new_Chart_def fresh_page_def)

end
